theory Spec2Isabelle
  imports Complex_Main "HOL-Library.Multiset"
begin

section \<open>Strings\<close>

text \<open>
  Python strings are modelled as \<^typ>\<open>string\<close> over the ASCII range: \<^verbatim>\<open>str.lower\<close> maps
  the letters \<^verbatim>\<open>A\<close>..\<^verbatim>\<open>Z\<close> to \<^verbatim>\<open>a\<close>..\<^verbatim>\<open>z\<close> and leaves every other character alone, and
  \<^verbatim>\<open>str.strip\<close> removes the characters Python counts as white space on both ends
  (codes 9 to 13, 28 to 32).
\<close>

definition is_upper :: "char \<Rightarrow> bool" where
  "is_upper c = (65 \<le> (of_char c :: nat) \<and> (of_char c :: nat) \<le> 90)"

definition lower_char :: "char \<Rightarrow> char" where
  "lower_char c = (if is_upper c then char_of ((of_char c :: nat) + 32) else c)"

definition lower :: "string \<Rightarrow> string" where
  "lower s = map lower_char s"

definition is_space :: "char \<Rightarrow> bool" where
  "is_space c = ((9 \<le> (of_char c :: nat) \<and> (of_char c :: nat) \<le> 13)
               \<or> (28 \<le> (of_char c :: nat) \<and> (of_char c :: nat) \<le> 32))"

definition lstrip :: "string \<Rightarrow> string" where
  "lstrip s = dropWhile is_space s"

definition rstrip :: "string \<Rightarrow> string" where
  "rstrip s = rev (dropWhile is_space (rev s))"

definition strip :: "string \<Rightarrow> string" where
  "strip s = rstrip (lstrip s)"

text \<open>\<^verbatim>\<open>s.split(",")\<close>: the pieces between commas; the empty string gives one empty piece.\<close>

fun split_comma :: "string \<Rightarrow> string list" where
  "split_comma [] = [[]]"
| "split_comma (c # cs) =
     (if c = CHR '','' then [] # split_comma cs
      else (case split_comma cs of
              w # ws \<Rightarrow> (c # w) # ws
            | [] \<Rightarrow> [[c]]))"

text \<open>\<^verbatim>\<open>", ".join(xs)\<close>\<close>

fun join_comma :: "string list \<Rightarrow> string" where
  "join_comma [] = []"
| "join_comma [x] = x"
| "join_comma (x # y # ys) = x @ '', '' @ join_comma (y # ys)"

section \<open>Ingredient normalizer\<close>

definition ingredient_synonyms :: "(string \<times> string) list" where
  "ingredient_synonyms =
    [(''bhindi'', ''okra''), (''ghee'', ''clarified butter''), (''idli rice'', ''parboiled rice''),
     (''paneer'', ''cottage cheese''), (''panner'', ''cottage cheese''), (''malai'', ''cream''),
     (''curd'', ''yogurt''), (''dahi'', ''yogurt''), (''jaggery'', ''unrefined cane sugar''),
     (''imli'', ''tamarind''), (''til'', ''sesame''), (''rajma'', ''kidney beans''),
     (''lobia'', ''black eyed peas''), (''chole'', ''chickpeas''),
     (''soya chunks'', ''textured vegetable protein''),
     (''rava'', ''semolina''), (''suji'', ''semolina''), (''atta'', ''wheat flour''),
     (''maida'', ''all-purpose flour''), (''besan'', ''gram flour''), (''sabudana'', ''tapioca pearls''),
     (''poha'', ''flattened rice''), (''haldi'', ''turmeric''), (''adrak'', ''ginger''),
     (''lasun'', ''garlic''), (''mirchi'', ''chili''), (''drumstick'', ''moringa''),
     (''tofu'', ''soy paneer''), (''jeera'', ''cumin''), (''methi'', ''fenugreek''),
     (''pulao'', ''fried rice''), (''kachumber'', ''salad''), (''dal'', ''lentils''),
     (''roti'', ''flatbread'')]"

text \<open>\<^verbatim>\<open>d.get(k, default)\<close> on the synonym table.\<close>

definition synonyms_get :: "string \<Rightarrow> string \<Rightarrow> string" where
  "synonyms_get k dflt = (case map_of ingredient_synonyms k of Some v \<Rightarrow> v | None \<Rightarrow> dflt)"

definition normalize_ingredient :: "string \<Rightarrow> string" where
  "normalize_ingredient ing = (let ing' = strip (lower ing) in synonyms_get ing' ing')"

section \<open>Fuzzy similarity\<close>

text \<open>
  Modelled from the spec: the similarity measure \<^verbatim>\<open>fuzz.partial_ratio\<close> comes from the
  \<^verbatim>\<open>rapidfuzz\<close> package, which is not part of the repository. The ranking engine below
  takes the measure as its parameter \<open>sim\<close>; \<open>partial_ratio\<close> is the measure the spec
  describes, "the best-aligned substring overlap between the two strings, normalized to a
  0--100 score": the shorter string is compared with every window of its own length of
  the longer one, and with the shorter prefixes and suffixes of the longer one; a
  comparison scores \<open>100 * 2 * lcs / (length s + length t)\<close>, where \<open>lcs\<close> is the length
  of a longest common subsequence; the best comparison is the result. Two empty strings
  score 100, an empty string against a non-empty one scores 0.
\<close>

fun lcs :: "string \<Rightarrow> string \<Rightarrow> nat" where
  "lcs [] t = 0"
| "lcs (a # s) [] = 0"
| "lcs (a # s) (b # t) =
     (if a = b then Suc (lcs s t) else max (lcs s (b # t)) (lcs (a # s) t))"

definition ratio :: "string \<Rightarrow> string \<Rightarrow> real" where
  "ratio s t =
     (if s = [] \<and> t = [] then 100
      else 100 * real (2 * lcs s t) / real (length s + length t))"

definition windows :: "nat \<Rightarrow> string \<Rightarrow> string list" where
  "windows m l =
     [take i l. i \<leftarrow> [1..<m]]
     @ [take m (drop i l). i \<leftarrow> [0..<Suc (length l - m)]]
     @ [drop i l. i \<leftarrow> [Suc (length l - m)..<length l]]"

definition best_window :: "string \<Rightarrow> string \<Rightarrow> real" where
  "best_window s l = fold max (map (ratio s) (windows (length s) l)) 0"

definition partial_ratio :: "string \<Rightarrow> string \<Rightarrow> real" where
  "partial_ratio s1 s2 =
     (if s1 = [] \<and> s2 = [] then 100
      else if s1 = [] \<or> s2 = [] then 0
      else if length s1 < length s2 then best_window s1 s2
      else if length s2 < length s1 then best_window s2 s1
      else max (best_window s1 s2) (best_window s2 s1))"

section \<open>Data model\<close>

text \<open>
  A row of the corpus table \<^verbatim>\<open>recipes_df\<close>. The table has the default index, so the label
  \<^verbatim>\<open>idx\<close> that \<^verbatim>\<open>iterrows\<close> gives a row is its position, and the corpus is the list of
  its rows; \<open>df_title\<close> and \<open>df_ingredients\<close> are its columns \<^verbatim>\<open>title\<close> and
  \<^verbatim>\<open>ingredients\<close>.
\<close>

record recipe =
  df_title :: string
  df_ingredients :: "string list"

text \<open>JSON values carried through as metadata.\<close>

datatype json = JNum int | JStr string

text \<open>
  An entry of \<^verbatim>\<open>user_taste["liked"]\<close>: a dictionary. \<open>t_title\<close> is \<open>None\<close> for Python's
  \<^verbatim>\<open>None\<close>; \<open>t_ingredients\<close> is \<open>None\<close> when the dictionary has no key \<^verbatim>\<open>"ingredients"\<close>
  (an entry read from the taste file).
\<close>

record taste_recipe =
  t_title :: "string option"
  t_readyInMinutes :: json
  t_servings :: json
  t_sourceUrl :: json
  t_image :: json
  t_cuisines :: string
  t_nutrition :: string
  t_ingredients :: "string list option"

text \<open>A row of the table that \<^verbatim>\<open>search_offline_recipes\<close> returns, with its index label.\<close>

record result_row =
  row_idx :: nat
  row_title :: string
  row_ingredients :: "string list"
  Match_Score :: real

section \<open>Offline smart search\<close>

definition liked_ings_of :: "taste_recipe list \<Rightarrow> string list" where
  "liked_ings_of liked =
     concat (map (\<lambda>recipe. map normalize_ingredient
                    (case t_ingredients recipe of Some is \<Rightarrow> is | None \<Rightarrow> [])) liked)"

definition exact_of :: "string list \<Rightarrow> string list \<Rightarrow> int" where
  "exact_of ingredients recipe_ings =
     sum_list [1. ing \<leftarrow> ingredients, ing \<in> set recipe_ings]"

definition partial_of :: "(string \<Rightarrow> string \<Rightarrow> real) \<Rightarrow> string list \<Rightarrow> string list \<Rightarrow> int" where
  "partial_of sim ingredients recipe_ings =
     sum_list [1. ing \<leftarrow> ingredients, list_ex (\<lambda>r_ing. sim ing r_ing > 75) recipe_ings]"

definition taste_bonus_of :: "string list \<Rightarrow> string list \<Rightarrow> int" where
  "taste_bonus_of liked_ings recipe_ings =
     sum_list [1. ing \<leftarrow> recipe_ings, ing \<in> set liked_ings]"

text \<open>
  The score of one row. Python adds two integers and a float; the values are multiples
  of one half, which a float represents exactly, so the score is a real number here.
\<close>

definition score_of ::
  "(string \<Rightarrow> string \<Rightarrow> real) \<Rightarrow> string list \<Rightarrow> string list \<Rightarrow> recipe \<Rightarrow> real" where
  "score_of sim ingredients liked_ings row =
     (let recipe_ings = map normalize_ingredient (df_ingredients row);
          exact = exact_of ingredients recipe_ings;
          partial = partial_of sim ingredients recipe_ings;
          taste_bonus = taste_bonus_of liked_ings recipe_ings
      in of_int exact * 2 + of_int partial + of_int taste_bonus * 0.5)"

text \<open>The loop over \<^verbatim>\<open>recipes_df.iterrows()\<close>, collecting \<^verbatim>\<open>(idx, score)\<close>.\<close>

fun scan_rows ::
  "(string \<Rightarrow> string \<Rightarrow> real) \<Rightarrow> string list \<Rightarrow> string list \<Rightarrow> (nat \<times> recipe) list
    \<Rightarrow> (nat \<times> real) list" where
  "scan_rows sim ingredients liked_ings [] = []"
| "scan_rows sim ingredients liked_ings ((idx, row) # rest) =
     (let score = score_of sim ingredients liked_ings row
      in if score > 0
         then (idx, score) # scan_rows sim ingredients liked_ings rest
         else scan_rows sim ingredients liked_ings rest)"

text \<open>
  \<^verbatim>\<open>sorted(results, key=lambda x: x[1], reverse=True)\<close> is a stable sort by descending
  score: \<^const>\<open>sort_key\<close>, the stable insertion sort, on the negated score.
\<close>

definition sorted_desc :: "(nat \<times> real) list \<Rightarrow> (nat \<times> real) list" where
  "sorted_desc results = sort_key (\<lambda>x. - snd x) results"

definition search_offline_recipes ::
  "(string \<Rightarrow> string \<Rightarrow> real) \<Rightarrow> recipe list \<Rightarrow> string \<Rightarrow> taste_recipe list \<Rightarrow> result_row list" where
  "search_offline_recipes sim recipes_df user_input liked =
     (let ingredients = map normalize_ingredient (split_comma user_input);
          liked_ings = liked_ings_of liked;
          results = scan_rows sim ingredients liked_ings
                      (zip [0..<length recipes_df] recipes_df)
      in if results = [] then []
         else let top = take 20 (sorted_desc results)
              in map (\<lambda>(i, s). \<lparr>row_idx = i,
                                 row_title = df_title (recipes_df ! i),
                                 row_ingredients = df_ingredients (recipes_df ! i),
                                 Match_Score = s\<rparr>) top)"

section \<open>The score as the specification words it\<close>

text \<open>
  The counts of the specification, over multisets: every occurrence of a query token is
  counted on its own.
\<close>

definition spec_exact :: "string list \<Rightarrow> string list \<Rightarrow> nat" where
  "spec_exact Q R_norm = size (filter_mset (\<lambda>q. q \<in> set R_norm) (mset Q))"

definition spec_partial :: "(string \<Rightarrow> string \<Rightarrow> real) \<Rightarrow> string list \<Rightarrow> string list \<Rightarrow> nat" where
  "spec_partial sim Q R_norm =
     size (filter_mset (\<lambda>q. \<exists>r \<in> set R_norm. sim q r > 75) (mset Q))"

definition liked_multiset :: "taste_recipe list \<Rightarrow> string multiset" where
  "liked_multiset liked =
     sum_list (map (\<lambda>recipe. mset (map normalize_ingredient
                      (case t_ingredients recipe of Some is \<Rightarrow> is | None \<Rightarrow> []))) liked)"

definition spec_taste_bonus :: "taste_recipe list \<Rightarrow> string list \<Rightarrow> nat" where
  "spec_taste_bonus liked R_norm =
     size (filter_mset (\<lambda>r. r \<in># liked_multiset liked) (mset R_norm))"

definition spec_score ::
  "(string \<Rightarrow> string \<Rightarrow> real) \<Rightarrow> string \<Rightarrow> taste_recipe list \<Rightarrow> recipe \<Rightarrow> real" where
  "spec_score sim query_raw liked R =
     (let Q = map normalize_ingredient (split_comma query_raw);
          R_norm = map normalize_ingredient (df_ingredients R)
      in 2 * real (spec_exact Q R_norm) + 1 * real (spec_partial sim Q R_norm)
         + 0.5 * real (spec_taste_bonus liked R_norm))"

section \<open>Remote gateway\<close>

text \<open>
  The remote service is outside the program: \<open>gw\<close> maps a request to the reply that
  \<^verbatim>\<open>requests.get\<close> obtains for it. \<open>Raised\<close> is an exception of the call; a reply has a
  status code and a body, which is not JSON (\<^verbatim>\<open>r.json()\<close> raises) or an object whose key
  \<^verbatim>\<open>results\<close> is absent (\<open>None\<close>) or a list of items.
\<close>

record api_item =
  x_title :: "string option"
  x_readyInMinutes :: "json option"
  x_servings :: "json option"
  x_sourceUrl :: "json option"
  x_image :: "json option"
  x_cuisines :: "string list option"

datatype body = NotJson | Json "api_item list option"

datatype reply = Raised | Reply nat body

datatype request =
    IncludeIngredients string "string option"
  | Query string

definition DEFAULT_IMAGE :: string where
  "DEFAULT_IMAGE = ''https://via.placeholder.com/200x140.png?text=No+Image''"

definition get_or :: "'a option \<Rightarrow> 'a \<Rightarrow> 'a" where
  "get_or v dflt = (case v of Some a \<Rightarrow> a | None \<Rightarrow> dflt)"

definition cuisines_text :: "api_item \<Rightarrow> string" where
  "cuisines_text x =
     (let c = join_comma (get_or (x_cuisines x) [])
      in if c = [] then ''Not specified'' else c)"

definition get_recipes_from_api :: "(request \<Rightarrow> reply) \<Rightarrow> string \<Rightarrow> string \<Rightarrow> taste_recipe list" where
  "get_recipes_from_api gw ingredients diet =
     (case gw (IncludeIngredients ingredients
                 (if diet \<noteq> ''None'' then Some (lower diet) else None)) of
        Raised \<Rightarrow> []
      | Reply status_code b \<Rightarrow>
          if status_code \<noteq> 200 then []
          else (case b of
                  NotJson \<Rightarrow> []
                | Json None \<Rightarrow> []
                | Json (Some results) \<Rightarrow>
                    if results = [] then []
                    else map (\<lambda>x. \<lparr>t_title = x_title x,
                                     t_readyInMinutes = get_or (x_readyInMinutes x) (JStr ''N/A''),
                                     t_servings = get_or (x_servings x) (JStr ''N/A''),
                                     t_sourceUrl = get_or (x_sourceUrl x) (JStr ''#''),
                                     t_image = get_or (x_image x) (JStr DEFAULT_IMAGE),
                                     t_cuisines = cuisines_text x,
                                     t_nutrition = ''N/A'',
                                     t_ingredients = Some []\<rparr>) results))"




section \<open>Session state and the button handlers\<close>

datatype search_results = ApiResults "taste_recipe list" | OfflineResults "result_row list"

text \<open>
  \<open>user_taste\<close> is the list \<^verbatim>\<open>st.session_state.user_taste["liked"]\<close>; \<open>taste_file\<close> is what
  \<^verbatim>\<open>save_user_taste\<close> last wrote to \<^verbatim>\<open>taste_memory.json\<close>.
\<close>

record app_state =
  user_taste :: "taste_recipe list"
  search_results :: "search_results option"
  search_mode :: "string option"
  taste_file :: "taste_recipe list option"

text \<open>What a handler does besides changing the state: the calls it makes and the messages it shows.\<close>

datatype event =
    Call_get_recipes_from_api string string
  | Call_search_offline_recipes string
  | Call_enrich_offline_recipe string
  | Warning string
  | Success string

definition save_user_taste :: "taste_recipe list \<Rightarrow> app_state \<Rightarrow> app_state" where
  "save_user_taste data st = st\<lparr>taste_file := Some data\<rparr>"

text \<open>The body of \<^verbatim>\<open>if st.button("Find Recipes")\<close>.\<close>

definition find_recipes_button ::
  "(request \<Rightarrow> reply) \<Rightarrow> (string \<Rightarrow> string \<Rightarrow> real) \<Rightarrow> recipe list \<Rightarrow> string \<Rightarrow> string
    \<Rightarrow> app_state \<Rightarrow> app_state \<times> event list" where
  "find_recipes_button gw sim recipes_df ingredients diet st =
     (if ingredients \<noteq> [] then
        (let api_results = get_recipes_from_api gw ingredients diet
         in if api_results \<noteq> [] then
              (st\<lparr>search_results := Some (ApiResults api_results), search_mode := Some ''api''\<rparr>,
               [Call_get_recipes_from_api ingredients diet])
            else
              (let offline = search_offline_recipes sim recipes_df ingredients (user_taste st)
               in (st\<lparr>search_results := Some (OfflineResults offline),
                      search_mode := Some ''offline''\<rparr>,
                   [Call_get_recipes_from_api ingredients diet,
                    Call_search_offline_recipes ingredients])))
      else (st, [Warning ''Please enter some ingredients.'']))"

definition title_text :: "string option \<Rightarrow> string" where
  "title_text t = get_or t ''None''"

text \<open>The like button of a result \<open>r\<close> of the remote service.\<close>

definition like_api_button :: "taste_recipe \<Rightarrow> app_state \<Rightarrow> app_state \<times> event list" where
  "like_api_button r st =
     (if \<not> list_ex (\<lambda>x. t_title x = t_title r) (user_taste st) then
        (let liked = user_taste st @ [r]
         in (save_user_taste liked (st\<lparr>user_taste := liked\<rparr>),
             [Success (''Saved '' @ title_text (t_title r) @ '' to liked recipes!'')]))
      else (st, []))"


section \<open>Auxiliary notions\<close>

text \<open>The row that the result table holds for a pair \<^verbatim>\<open>(idx, score)\<close>.\<close>

definition to_row :: "recipe list \<Rightarrow> nat \<times> real \<Rightarrow> result_row" where
  "to_row recipes_df = (\<lambda>(i, s). \<lparr>row_idx = i, row_title = df_title (recipes_df ! i),
       row_ingredients = df_ingredients (recipes_df ! i), Match_Score = s\<rparr>)"

text \<open>
  The order of the ranking: a higher score first, and among equal scores the lower index
  first.
\<close>

definition before :: "(nat \<times> real) \<Rightarrow> (nat \<times> real) \<Rightarrow> bool" where
  "before a b = (snd a > snd b \<or> (snd a = snd b \<and> fst a < fst b))"


section \<open>Example inputs\<close>

text \<open>Concrete corpora, taste profiles, gateways and states, on which the model is run.\<close>

definition chole_corpus :: "recipe list" where
  "chole_corpus = [\<lparr>df_title = ''Chole Masala'', df_ingredients = [''chole'', ''onion'', ''tomato'']\<rparr>]"

definition rice_liked :: "taste_recipe list" where
  "rice_liked = [\<lparr>t_title = Some ''Rice Bowl'', t_readyInMinutes = JNum 20, t_servings = JNum 2,
      t_sourceUrl = JStr ''#'', t_image = JStr DEFAULT_IMAGE, t_cuisines = ''Not specified'',
      t_nutrition = ''N/A'', t_ingredients = Some [''rice'']\<rparr>]"

definition egg_corpus :: "recipe list" where
  "egg_corpus =
    [\<lparr>df_title = ''Egg Toast'', df_ingredients = [''egg'', ''bread'']\<rparr>,
     \<lparr>df_title = ''Tea'', df_ingredients = []\<rparr>,
     \<lparr>df_title = ''Egg Rice'', df_ingredients = [''egg'', ''rice'']\<rparr>,
     \<lparr>df_title = ''Egg Salad'', df_ingredients = [''egg'', ''onion'']\<rparr>]"

definition tamarind_liked :: "taste_recipe list" where
  "tamarind_liked = [\<lparr>t_title = Some ''Tamarind Rice'', t_readyInMinutes = JStr ''N/A'',
      t_servings = JStr ''N/A'', t_sourceUrl = JStr ''#'', t_image = JStr DEFAULT_IMAGE,
      t_cuisines = ''Not specified'', t_nutrition = ''N/A'', t_ingredients = Some [''tamarind'']\<rparr>]"

definition imli_corpus :: "recipe list" where
  "imli_corpus = [\<lparr>df_title = ''Imli Chutney'', df_ingredients = [''imli'']\<rparr>]"

definition chana_item :: api_item where
  "chana_item = \<lparr>x_title = Some ''Chana Masala'', x_readyInMinutes = Some (JNum 30),
     x_servings = Some (JNum 4), x_sourceUrl = Some (JStr ''https://example.com/chana-masala''),
     x_image = None, x_cuisines = Some [''Indian'']\<rparr>"

definition chana_gw :: "request \<Rightarrow> reply" where
  "chana_gw req = Reply 200 (Json (Some [chana_item]))"




section \<open>Properties of the normalizer\<close>

text \<open>A split always has a piece, so the last case of \<open>split_comma\<close> is never taken.\<close>

lemma split_comma_not_Nil: "split_comma s \<noteq> []"
  by (induction s) (auto split: list.splits)














section \<open>Properties of the similarity measure\<close>

lemma lcs_refl: "lcs q q = length q"
  by (induction q) simp_all

lemma lcs_le: "lcs s t \<le> length s \<and> lcs s t \<le> length t"
  by (induction s t rule: lcs.induct) auto

lemma ratio_refl: "ratio q q = 100"
  by (cases q) (simp_all add: ratio_def lcs_refl field_simps)

lemma ratio_le: "ratio s t \<le> 100"
proof -
  have "2 * lcs s t \<le> length s + length t"
    using lcs_le [of s t] by linarith
  then have "real (2 * lcs s t) \<le> real (length s + length t)"
    by (rule of_nat_mono)
  then show ?thesis
    by (auto simp: ratio_def divide_le_eq)
qed

lemma fold_max_ge_init: "(a::real) \<le> fold max xs a"
  by (induction xs arbitrary: a) (auto intro: order_trans [OF max.cobounded2])

lemma fold_max_ge: "x \<in> set xs \<Longrightarrow> (x::real) \<le> fold max xs a"
proof (induction xs arbitrary: a)
  case Nil
  then show ?case by simp
next
  case (Cons y ys)
  show ?case
  proof (cases "x = y")
    case True
    have "y \<le> max y a" by simp
    also have "\<dots> \<le> fold max ys (max y a)" by (rule fold_max_ge_init)
    finally show ?thesis using True by simp
  next
    case False
    with Cons show ?thesis by simp
  qed
qed

lemma fold_max_le: "\<forall>x \<in> set xs. x \<le> b \<Longrightarrow> a \<le> b \<Longrightarrow> fold max xs a \<le> (b::real)"
  by (induction xs arbitrary: a) auto

lemma self_window: "q \<noteq> [] \<Longrightarrow> q \<in> set (windows (length q) q)"
  by (simp add: windows_def)

lemma best_window_le: "best_window s l \<le> 100"
  unfolding best_window_def by (rule fold_max_le) (auto simp: ratio_le)

lemma best_window_self: "q \<noteq> [] \<Longrightarrow> best_window q q = 100"
proof -
  assume "q \<noteq> []"
  then have "ratio q q \<in> set (map (ratio q) (windows (length q) q))"
    using self_window by (simp del: map_append)
  then have "ratio q q \<le> best_window q q"
    unfolding best_window_def by (rule fold_max_ge)
  with best_window_le [of q q] show ?thesis by (simp add: ratio_refl)
qed

lemma partial_ratio_self: "partial_ratio q q = 100"
  by (simp add: partial_ratio_def best_window_self)

section \<open>Properties of the ranking\<close>

subsection \<open>Counting\<close>

lemma count_comprehension:
  "sum_list [1. x \<leftarrow> xs, P x] = int (size (filter_mset P (mset xs)))"
  by (induction xs) simp_all

lemma exact_of_spec: "exact_of Q R_norm = int (spec_exact Q R_norm)"
  by (simp add: exact_of_def spec_exact_def count_comprehension)

lemma partial_of_spec: "partial_of sim Q R_norm = int (spec_partial sim Q R_norm)"
  by (simp add: partial_of_def spec_partial_def count_comprehension list_ex_iff)

lemma liked_multiset_mset: "liked_multiset liked = mset (liked_ings_of liked)"
  by (induction liked) (simp_all add: liked_multiset_def liked_ings_of_def)

lemma taste_bonus_of_spec:
  "taste_bonus_of (liked_ings_of liked) R_norm = int (spec_taste_bonus liked R_norm)"
  by (simp add: taste_bonus_of_def spec_taste_bonus_def count_comprehension liked_multiset_mset)

lemma score_of_spec:
  "score_of sim (map normalize_ingredient (split_comma user_input)) (liked_ings_of liked) R
     = spec_score sim user_input liked R"
  by (simp add: score_of_def spec_score_def Let_def exact_of_spec partial_of_spec taste_bonus_of_spec)

lemma partial_ge_exact_aux:
  assumes "\<And>q. 75 < sim q q"
  shows "exact_of Q R_norm \<le> partial_of sim Q R_norm"
  unfolding exact_of_def partial_of_def
proof (induction Q)
  case Nil
  then show ?case by simp
next
  case (Cons q Q)
  have "list_ex (\<lambda>r_ing. sim q r_ing > 75) R_norm" if "q \<in> set R_norm"
    using that assms by (auto simp: list_ex_iff)
  with Cons show ?case by auto
qed

lemma counts_nonneg:
  "0 \<le> exact_of Q R_norm" "0 \<le> partial_of sim Q R_norm" "0 \<le> taste_bonus_of L R_norm"
  unfolding exact_of_def partial_of_def taste_bonus_of_def
  by (induction Q, simp_all) (induction R_norm, simp_all)+

subsection \<open>The scan\<close>

lemma scan_rows_filter:
  "scan_rows sim Q L rows =
     map (\<lambda>(i, r). (i, score_of sim Q L r)) (filter (\<lambda>(i, r). score_of sim Q L r > 0) rows)"
  by (induction rows) (auto simp: Let_def)

lemma zip_upt_mem: "(i, r) \<in> set (zip [0..<length xs] xs) \<longleftrightarrow> i < length xs \<and> r = xs ! i"
proof
  assume "(i, r) \<in> set (zip [0..<length xs] xs)"
  then obtain n where "[0..<length xs] ! n = i" "xs ! n = r" "n < length xs"
    by (auto simp: in_set_zip)
  then show "i < length xs \<and> r = xs ! i" by simp
next
  assume "i < length xs \<and> r = xs ! i"
  then have "[0..<length xs] ! i = fst (i, r) \<and> xs ! i = snd (i, r)
      \<and> i < length [0..<length xs] \<and> i < length xs" by simp
  then show "(i, r) \<in> set (zip [0..<length xs] xs)"
    unfolding in_set_zip by blast
qed

lemma idx_sorted_zip: "sorted_wrt (\<lambda>a b. fst a < fst b) (zip [0..<length xs] xs)"
proof -
  have "sorted_wrt (<) (map fst (zip [0..<length xs] xs))"
    by (simp add: sorted_wrt_upt)
  then show ?thesis by (simp only: sorted_wrt_map)
qed

lemma idx_sorted_scan:
  assumes "sorted_wrt (\<lambda>a b. fst a < fst b) rows"
  shows "sorted_wrt (\<lambda>a b. fst a < (fst b :: nat)) (scan_rows sim Q L rows)"
proof -
  have "sorted_wrt (\<lambda>a b. fst a < fst b) (filter (\<lambda>(i, r). score_of sim Q L r > 0) rows)"
    using assms by (rule sorted_wrt_filter)
  then show ?thesis
    by (simp add: scan_rows_filter sorted_wrt_map case_prod_unfold)
qed

subsection \<open>Stable descending sort\<close>

lemma insort_before:
  assumes "sorted_wrt before ys" "\<forall>y \<in> set ys. fst x < fst y"
  shows "sorted_wrt before (insort_key (\<lambda>x. - snd x) x ys)"
  using assms
proof (induction ys)
  case Nil
  then show ?case by simp
next
  case (Cons y ys)
  show ?case
  proof (cases "- snd x \<le> - snd y")
    case True
    have "before x z" if "z \<in> set (y # ys)" for z
    proof -
      have "snd z \<le> snd y" using that Cons.prems(1) by (auto simp: before_def)
      moreover have "fst x < fst z" using that Cons.prems(2) by auto
      ultimately show ?thesis using True by (auto simp: before_def)
    qed
    with Cons.prems(1) True show ?thesis by simp
  next
    case False
    then have "before y x" by (simp add: before_def)
    moreover have "sorted_wrt before (insort_key (\<lambda>x. - snd x) x ys)"
      using Cons by simp
    ultimately show ?thesis using False Cons.prems(1)
      by (auto simp: set_insort_key)
  qed
qed

lemma sorted_desc_before:
  assumes "sorted_wrt (\<lambda>a b. fst a < fst b) results"
  shows "sorted_wrt before (sorted_desc results)"
  using assms
proof (induction results)
  case Nil
  then show ?case by (simp add: sorted_desc_def)
next
  case (Cons x xs)
  then have "sorted_wrt before (sorted_desc xs)" by simp
  moreover have "\<forall>y \<in> set (sorted_desc xs). fst x < fst y"
    using Cons.prems by (simp add: sorted_desc_def)
  ultimately show ?case
    using insort_before [of "sorted_desc xs" x] by (simp add: sorted_desc_def)
qed


subsection \<open>The ranking\<close>

lemma search_unfold:
  "search_offline_recipes sim recipes_df user_input liked =
     map (to_row recipes_df)
       (take 20 (sorted_desc (scan_rows sim (map normalize_ingredient (split_comma user_input))
          (liked_ings_of liked) (zip [0..<length recipes_df] recipes_df))))"
  by (simp add: search_offline_recipes_def Let_def to_row_def sorted_desc_def)

lemma search_row:
  assumes "row \<in> set (search_offline_recipes sim recipes_df user_input liked)"
  shows "row_idx row < length recipes_df
       \<and> row_title row = df_title (recipes_df ! row_idx row)
       \<and> row_ingredients row = df_ingredients (recipes_df ! row_idx row)
       \<and> Match_Score row = score_of sim (map normalize_ingredient (split_comma user_input))
            (liked_ings_of liked) (recipes_df ! row_idx row)
       \<and> Match_Score row > 0"
proof -
  let ?Q = "map normalize_ingredient (split_comma user_input)"
  let ?res = "scan_rows sim ?Q (liked_ings_of liked) (zip [0..<length recipes_df] recipes_df)"
  from assms obtain p where p: "p \<in> set (take 20 (sorted_desc ?res))" and row: "row = to_row recipes_df p"
    by (auto simp: search_unfold)
  from p have "p \<in> set ?res"
    by (auto dest: in_set_takeD simp: sorted_desc_def)
  then obtain i r where "p = (i, score_of sim ?Q (liked_ings_of liked) r)"
      "(i, r) \<in> set (zip [0..<length recipes_df] recipes_df)"
      "score_of sim ?Q (liked_ings_of liked) r > 0"
    by (auto simp: scan_rows_filter)
  then show ?thesis
    by (simp add: row to_row_def zip_upt_mem)
qed

lemma search_sorted:
  "sorted_wrt (\<lambda>a b. Match_Score a > Match_Score b
                  \<or> (Match_Score a = Match_Score b \<and> row_idx a < row_idx b))
     (search_offline_recipes sim recipes_df user_input liked)"
proof -
  let ?Q = "map normalize_ingredient (split_comma user_input)"
  let ?res = "scan_rows sim ?Q (liked_ings_of liked) (zip [0..<length recipes_df] recipes_df)"
  have "sorted_wrt before (sorted_desc ?res)"
    by (intro sorted_desc_before idx_sorted_scan idx_sorted_zip)
  then have "sorted_wrt before (take 20 (sorted_desc ?res))"
    by (rule sorted_wrt_take)
  then show ?thesis
    unfolding before_def [abs_def]
    by (simp add: search_unfold sorted_wrt_map to_row_def case_prod_unfold)
qed

section \<open>The handlers\<close>

lemma like_api_present:
  "list_ex (\<lambda>x. t_title x = t_title r) (user_taste st) \<Longrightarrow> like_api_button r st = (st, [])"
  by (simp add: like_api_button_def)

lemma like_api_absent:
  "\<not> list_ex (\<lambda>x. t_title x = t_title r) (user_taste st)
   \<Longrightarrow> user_taste (fst (like_api_button r st)) = user_taste st @ [r]"
  by (simp add: like_api_button_def save_user_taste_def Let_def)





text \<open>The guard of the "Find Recipes" handler lets every non-empty string through, blanks too.\<close>

lemma nonempty_query_calls_gateway:
  "ingredients \<noteq> [] \<Longrightarrow>
     hd (snd (find_recipes_button gw sim recipes_df ingredients diet st))
       = Call_get_recipes_from_api ingredients diet"
  by (simp add: find_recipes_button_def Let_def)

lemma api_recipe_ingredients:
  assumes "r \<in> set (get_recipes_from_api gw ingredients diet)"
  shows "t_ingredients r = Some []"
proof (cases "gw (IncludeIngredients ingredients (if diet \<noteq> ''None'' then Some (lower diet) else None))")
  case Raised
  with assms show ?thesis by (simp add: get_recipes_from_api_def)
next
  case (Reply status_code b)
  show ?thesis
  proof (cases b)
    case NotJson
    with Reply assms show ?thesis by (simp add: get_recipes_from_api_def split: if_splits)
  next
    case (Json results)
    show ?thesis
    proof (cases results)
      case None
      with Reply Json assms show ?thesis by (simp add: get_recipes_from_api_def split: if_splits)
    next
      case (Some xs)
      with Reply Json assms show ?thesis
        by (auto simp add: get_recipes_from_api_def split: if_splits)
    qed
  qed
qed

lemma liked_ings_of_drop:
  "t_ingredients r = Some [] \<Longrightarrow> liked_ings_of (xs @ r # ys) = liked_ings_of (xs @ ys)"
  by (simp add: liked_ings_of_def)

lemma search_liked_ings:
  "liked_ings_of liked = liked_ings_of liked'
   \<Longrightarrow> search_offline_recipes sim recipes_df user_input liked
       = search_offline_recipes sim recipes_df user_input liked'"
  by (simp add: search_offline_recipes_def)

section \<open>Evaluations on the example inputs\<close>

lemma normalize_case_whitespace:
  "normalize_ingredient '' Ghee '' = ''clarified butter''"
  "normalize_ingredient ''ghee'' = ''clarified butter''"
  by code_simp+

lemma chole_query: "map normalize_ingredient (split_comma ''chickpeas'') = [''chickpeas'']"
  by code_simp

lemma chole_ings:
  "normalize_ingredient ''chole'' = ''chickpeas''"
  "normalize_ingredient ''onion'' = ''onion''"
  "normalize_ingredient ''tomato'' = ''tomato''"
  by code_simp+

lemma egg_ranking:
  "search_offline_recipes partial_ratio egg_corpus ''egg'' rice_liked =
    [\<lparr>row_idx = 2, row_title = ''Egg Rice'', row_ingredients = [''egg'', ''rice''], Match_Score = 7/2\<rparr>,
     \<lparr>row_idx = 0, row_title = ''Egg Toast'', row_ingredients = [''egg'', ''bread''], Match_Score = 3\<rparr>,
     \<lparr>row_idx = 3, row_title = ''Egg Salad'', row_ingredients = [''egg'', ''onion''], Match_Score = 3\<rparr>]"
  by code_simp

lemma egg_spec_score: "spec_score partial_ratio ''egg'' rice_liked (egg_corpus ! 2) = 7/2"
  by code_simp


section \<open>The claims\<close>

text \<open>
  C1, as amended. For the corpus of the single recipe "Chole Masala" with the ingredients
  chole, onion and tomato, the query "chickpeas" and an empty taste profile, the offline
  ranking returns exactly one result, and its score is 3: the ingredient "chole"
  normalizes to "chickpeas", so the query token is an exact match (2 points), and the
  same token also passes the similarity threshold against that ingredient (1 point).
  This holds for every similarity measure that scores the string "chickpeas" against
  itself above 75.
\<close>

theorem chole_score_three:
  assumes "75 < sim ''chickpeas'' ''chickpeas''"
  shows "search_offline_recipes sim chole_corpus ''chickpeas'' [] =
           [\<lparr>row_idx = 0, row_title = ''Chole Masala'',
             row_ingredients = [''chole'', ''onion'', ''tomato''], Match_Score = 3\<rparr>]"
proof -
  have s: "score_of sim [''chickpeas''] [] (chole_corpus ! 0) = 3"
    using assms
    by (simp add: score_of_def chole_corpus_def chole_ings exact_of_def partial_of_def
        taste_bonus_of_def)
  show ?thesis
    unfolding search_unfold chole_query
    using s by (simp add: chole_corpus_def liked_ings_of_def sorted_desc_def to_row_def)
qed

text \<open>The measure \<open>partial_ratio\<close> is such a measure.\<close>

theorem chole_score_three_witness:
  "75 < partial_ratio ''chickpeas'' ''chickpeas''
   \<and> search_offline_recipes partial_ratio chole_corpus ''chickpeas'' [] =
           [\<lparr>row_idx = 0, row_title = ''Chole Masala'',
             row_ingredients = [''chole'', ''onion'', ''tomato''], Match_Score = 3\<rparr>]"
proof -
  have h: "75 < partial_ratio ''chickpeas'' ''chickpeas''"
    by (simp add: partial_ratio_self)
  from h chole_score_three [of partial_ratio, OF h] show ?thesis by (rule conjI)
qed

text \<open>C1 as stated fails: the score of the single result is not 2.\<close>

theorem chole_score_not_two:
  "map Match_Score (search_offline_recipes partial_ratio chole_corpus ''chickpeas'' []) \<noteq> [2]"
  by code_simp

text \<open>
  C2. For every query, corpus recipe and taste profile, the score that the ranking engine
  computes is \<open>2 * exact + 1 * partial + 0.5 * tasteBonus\<close>, where \<open>exact\<close> counts the
  query tokens (each occurrence on its own) that are members of the normalized
  ingredient list, \<open>partial\<close> counts the query tokens for which some normalized
  ingredient has similarity above 75, and \<open>tasteBonus\<close> counts the normalized ingredients
  that are members of the multiset of the normalized ingredients of all liked recipes;
  and the score of every row of the result is that score of the corpus row at its index.
\<close>

theorem score_formula:
  "score_of sim (map normalize_ingredient (split_comma user_input)) (liked_ings_of liked) R
     = spec_score sim user_input liked R
   \<and> (\<forall>row \<in> set (search_offline_recipes sim recipes_df user_input liked).
         row_idx row < length recipes_df
         \<and> Match_Score row = spec_score sim user_input liked (recipes_df ! row_idx row))"
  using search_row [of _ sim recipes_df user_input liked]
  by (simp add: score_of_spec)

text \<open>On the example corpus the first row of the result has the score 7/2 of the formula.\<close>

theorem score_formula_witness:
  "Match_Score (hd (search_offline_recipes partial_ratio egg_corpus ''egg'' rice_liked))
     = spec_score partial_ratio ''egg'' rice_liked (egg_corpus ! 2)
   \<and> spec_score partial_ratio ''egg'' rice_liked (egg_corpus ! 2) = 7/2"
proof -
  let ?out = "search_offline_recipes partial_ratio egg_corpus ''egg'' rice_liked"
  have mem: "hd ?out \<in> set ?out" by (simp add: egg_ranking)
  have idx: "row_idx (hd ?out) = 2" by (simp add: egg_ranking)
  from score_formula [of partial_ratio "''egg''" rice_liked _ egg_corpus] mem
  have "Match_Score (hd ?out) = spec_score partial_ratio ''egg'' rice_liked (egg_corpus ! row_idx (hd ?out))"
    by blast
  then show ?thesis by (simp add: idx egg_spec_score)
qed

text \<open>
  C3. For every query, corpus and taste profile, the result of the offline ranking has at
  most 20 rows, its scores never increase from one row to the next, and rows of equal
  score stand in the order of the corpus (the index of a row is its position in the
  corpus).
\<close>

theorem ranking_sorted_stable:
  "length (search_offline_recipes sim recipes_df user_input liked) \<le> 20
   \<and> sorted_wrt (\<lambda>a b. Match_Score a \<ge> Match_Score b)
        (search_offline_recipes sim recipes_df user_input liked)
   \<and> sorted_wrt (\<lambda>a b. Match_Score a = Match_Score b \<longrightarrow> row_idx a < row_idx b)
        (search_offline_recipes sim recipes_df user_input liked)
   \<and> (\<forall>row \<in> set (search_offline_recipes sim recipes_df user_input liked).
        row_idx row < length recipes_df
        \<and> row_title row = df_title (recipes_df ! row_idx row)
        \<and> row_ingredients row = df_ingredients (recipes_df ! row_idx row))"
proof -
  let ?out = "search_offline_recipes sim recipes_df user_input liked"
  have len: "length ?out \<le> 20" by (simp add: search_unfold)
  have lex: "sorted_wrt (\<lambda>a b. Match_Score a > Match_Score b
                  \<or> (Match_Score a = Match_Score b \<and> row_idx a < row_idx b)) ?out"
    by (rule search_sorted)
  have desc: "sorted_wrt (\<lambda>a b. Match_Score a \<ge> Match_Score b) ?out"
    by (rule sorted_wrt_mono_rel [OF _ lex]) auto
  have stable: "sorted_wrt (\<lambda>a b. Match_Score a = Match_Score b \<longrightarrow> row_idx a < row_idx b) ?out"
    by (rule sorted_wrt_mono_rel [OF _ lex]) auto
  have rows: "\<forall>row \<in> set ?out. row_idx row < length recipes_df
        \<and> row_title row = df_title (recipes_df ! row_idx row)
        \<and> row_ingredients row = df_ingredients (recipes_df ! row_idx row)"
    using search_row [of _ sim recipes_df user_input liked] by blast
  from len desc stable rows show ?thesis by blast
qed

text \<open>On the example corpus rows 0 and 3 tie at 3 and keep their order behind row 2.\<close>

theorem ranking_sorted_stable_witness:
  "map (\<lambda>row. (row_idx row, Match_Score row))
       (search_offline_recipes partial_ratio egg_corpus ''egg'' rice_liked) = [(2, 7/2), (0, 3), (3, 3)]
   \<and> length (search_offline_recipes partial_ratio egg_corpus ''egg'' rice_liked) \<le> 20
   \<and> sorted_wrt (\<lambda>a b. Match_Score a \<ge> Match_Score b)
        (search_offline_recipes partial_ratio egg_corpus ''egg'' rice_liked)
   \<and> sorted_wrt (\<lambda>a b. Match_Score a = Match_Score b \<longrightarrow> row_idx a < row_idx b)
        (search_offline_recipes partial_ratio egg_corpus ''egg'' rice_liked)"
  using ranking_sorted_stable [of partial_ratio egg_corpus "''egg''" rice_liked]
  by (simp add: egg_ranking)

text \<open>
  C4. A recipe whose score is 0 never appears in the result of the ranking; a recipe with
  an empty ingredient list has score 0 and is excluded; every row of the result has a
  positive score and a non-empty ingredient list.
\<close>

theorem zero_score_excluded:
  assumes "i < length recipes_df"
  shows "(score_of sim (map normalize_ingredient (split_comma user_input)) (liked_ings_of liked)
            (recipes_df ! i) = 0
          \<longrightarrow> i \<notin> row_idx ` set (search_offline_recipes sim recipes_df user_input liked))
       \<and> (df_ingredients (recipes_df ! i) = []
          \<longrightarrow> score_of sim (map normalize_ingredient (split_comma user_input)) (liked_ings_of liked)
                (recipes_df ! i) = 0
              \<and> i \<notin> row_idx ` set (search_offline_recipes sim recipes_df user_input liked))
       \<and> (\<forall>row \<in> set (search_offline_recipes sim recipes_df user_input liked).
             0 < Match_Score row \<and> row_ingredients row \<noteq> [])"
proof -
  let ?Q = "map normalize_ingredient (split_comma user_input)"
  let ?out = "search_offline_recipes sim recipes_df user_input liked"
  have excl: "i \<notin> row_idx ` set ?out" if "score_of sim ?Q (liked_ings_of liked) (recipes_df ! i) = 0"
  proof
    assume "i \<in> row_idx ` set ?out"
    then obtain row where "row \<in> set ?out" "row_idx row = i" by auto
    with search_row [of row sim recipes_df user_input liked] that show False by auto
  qed
  have empty: "score_of sim Q L R = 0" if "df_ingredients R = []" for Q L R
    using that
    by (simp add: score_of_def exact_of_spec partial_of_spec spec_exact_def spec_partial_def
        taste_bonus_of_def)
  have pos: "0 < Match_Score row \<and> row_ingredients row \<noteq> []" if "row \<in> set ?out" for row
  proof -
    from search_row [OF that] have "0 < Match_Score row"
      and "row_ingredients row = df_ingredients (recipes_df ! row_idx row)"
      and "Match_Score row = score_of sim ?Q (liked_ings_of liked) (recipes_df ! row_idx row)"
      by simp_all
    with empty [of "recipes_df ! row_idx row" ?Q "liked_ings_of liked"] show ?thesis by auto
  qed
  from excl empty pos show ?thesis by blast
qed

text \<open>The recipe "Tea" of the example corpus has no ingredients and is left out.\<close>

theorem zero_score_excluded_witness:
  "(1::nat) < length egg_corpus
   \<and> df_ingredients (egg_corpus ! 1) = []
   \<and> score_of partial_ratio (map normalize_ingredient (split_comma ''egg'')) (liked_ings_of rice_liked)
        (egg_corpus ! 1) = 0
   \<and> 1 \<notin> row_idx ` set (search_offline_recipes partial_ratio egg_corpus ''egg'' rice_liked)"
proof -
  have h: "(1::nat) < length egg_corpus" by (simp add: egg_corpus_def)
  have e: "df_ingredients (egg_corpus ! 1) = []" by (simp add: egg_corpus_def)
  from zero_score_excluded [OF h, of partial_ratio "''egg''" rice_liked] e h
  show ?thesis by blast
qed

text \<open>
  C5, as amended. When the raw query string is empty, the handler of the "Find Recipes"
  button rejects it before any call of the gateway or of the ranking: it shows the
  warning and leaves the state as it was. The ranking function has no check of its own.
\<close>

theorem empty_query_rejected:
  "find_recipes_button gw sim recipes_df '''' diet st
     = (st, [Warning ''Please enter some ingredients.''])"
  by (simp add: find_recipes_button_def)

text \<open>
  C5 as stated fails: called with an empty query string, the ranking scores the corpus
  against the single empty token, and a taste bonus puts a recipe in the result.
\<close>

theorem blank_query_is_scored:
  "search_offline_recipes partial_ratio imli_corpus '''' tamarind_liked \<noteq> []"
  by code_simp





text \<open>
  C9. For every query, corpus recipe and taste profile, \<open>partial\<close> is at least \<open>exact\<close>,
  so every query token that is an exact member adds at least 3 to the score, given that
  the similarity measure scores every string against itself above 75 (as
  \<open>partial_ratio\<close> does, with 100).
\<close>

theorem partial_ge_exact:
  assumes "\<And>q. 75 < sim q q"
  shows "exact_of Q (map normalize_ingredient (df_ingredients R))
           \<le> partial_of sim Q (map normalize_ingredient (df_ingredients R))
       \<and> 3 * real_of_int (exact_of Q (map normalize_ingredient (df_ingredients R)))
           \<le> score_of sim Q L R"
proof -
  let ?R = "map normalize_ingredient (df_ingredients R)"
  have le: "exact_of Q ?R \<le> partial_of sim Q ?R"
    using assms by (rule partial_ge_exact_aux)
  have "0 \<le> taste_bonus_of L ?R" by (rule counts_nonneg)
  with le have "3 * real_of_int (exact_of Q ?R) \<le> score_of sim Q L R"
    by (simp add: score_of_def Let_def)
  with le show ?thesis by simp
qed

text \<open>The measure \<open>partial_ratio\<close> meets the hypothesis; on the example, both counts are 1.\<close>

theorem partial_ge_exact_witness:
  "(\<forall>q. 75 < partial_ratio q q)
   \<and> exact_of [''egg''] (map normalize_ingredient (df_ingredients (egg_corpus ! 0))) = 1
   \<and> partial_of partial_ratio [''egg''] (map normalize_ingredient (df_ingredients (egg_corpus ! 0))) = 1
   \<and> score_of partial_ratio [''egg''] [] (egg_corpus ! 0) = 3"
proof -
  have self: "75 < partial_ratio q q" for q by (simp add: partial_ratio_self)
  have e: "exact_of [''egg''] (map normalize_ingredient (df_ingredients (egg_corpus ! 0))) = 1"
    by code_simp
  have s: "score_of partial_ratio [''egg''] [] (egg_corpus ! 0) = 3"
    by code_simp
  have p: "partial_of partial_ratio [''egg''] (map normalize_ingredient (df_ingredients (egg_corpus ! 0))) \<le> 1"
    by (simp add: partial_of_def)
  from partial_ge_exact [of partial_ratio "[''egg'']" "egg_corpus ! 0" "[]", OF self] e p
  have "partial_of partial_ratio [''egg''] (map normalize_ingredient (df_ingredients (egg_corpus ! 0))) = 1"
    by linarith
  with self e s show ?thesis by blast
qed

text \<open>
  C10. Every recipe that comes from the results of the remote service has an empty
  ingredient list, the like handler stores it as it is, and wherever it stands in the
  liked list it adds nothing to the liked ingredients: taste bonus and ranking are the
  same with and without it.
\<close>

theorem api_like_no_bonus:
  assumes "r \<in> set (get_recipes_from_api gw ingredients diet)"
  shows "t_ingredients r = Some []
       \<and> user_taste (fst (like_api_button r st))
           = (if list_ex (\<lambda>x. t_title x = t_title r) (user_taste st) then user_taste st
              else user_taste st @ [r])
       \<and> liked_multiset (xs @ r # ys) = liked_multiset (xs @ ys)
       \<and> taste_bonus_of (liked_ings_of (xs @ r # ys)) R_norm
           = taste_bonus_of (liked_ings_of (xs @ ys)) R_norm
       \<and> taste_bonus_of (liked_ings_of [r]) R_norm = 0
       \<and> search_offline_recipes sim recipes_df user_input (xs @ r # ys)
           = search_offline_recipes sim recipes_df user_input (xs @ ys)"
proof -
  from assms have e: "t_ingredients r = Some []" by (rule api_recipe_ingredients)
  then have d: "liked_ings_of (xs @ r # ys) = liked_ings_of (xs @ ys)"
    by (rule liked_ings_of_drop)
  have u: "user_taste (fst (like_api_button r st))
           = (if list_ex (\<lambda>x. t_title x = t_title r) (user_taste st) then user_taste st
              else user_taste st @ [r])"
    by (simp add: like_api_present like_api_absent)
  have z: "taste_bonus_of (liked_ings_of [r]) R_norm = 0"
    using e by (simp add: taste_bonus_of_spec spec_taste_bonus_def liked_multiset_def)
  from e u d z search_liked_ings [OF d] show ?thesis
    by (simp add: liked_multiset_mset)
qed

text \<open>A result of the example gateway, liked, leaves the ranking as it was.\<close>

theorem api_like_no_bonus_witness:
  "hd (get_recipes_from_api chana_gw ''chickpeas'' ''None'')
     \<in> set (get_recipes_from_api chana_gw ''chickpeas'' ''None'')
   \<and> t_ingredients (hd (get_recipes_from_api chana_gw ''chickpeas'' ''None'')) = Some []
   \<and> search_offline_recipes partial_ratio imli_corpus ''egg''
        (tamarind_liked @ hd (get_recipes_from_api chana_gw ''chickpeas'' ''None'') # [])
       = search_offline_recipes partial_ratio imli_corpus ''egg'' (tamarind_liked @ [])"
proof -
  have m: "hd (get_recipes_from_api chana_gw ''chickpeas'' ''None'')
     \<in> set (get_recipes_from_api chana_gw ''chickpeas'' ''None'')"
    by (simp add: get_recipes_from_api_def chana_gw_def)
  from m api_like_no_bonus [OF m] show ?thesis by blast
qed

end
